theory Spec2Isabelle
  imports Complex_Main
begin

section \<open>Audio channel (class AudioPlayer)\<close>

text \<open>
  \<^verbatim>\<open>pygame.mixer.music\<close> is an external library with process-global state. The model
  keeps the two things the program can observe or cause: the music volume and the list of
  transport commands issued so far, oldest first. Nothing is assumed about what the
  library does with a command. Python floats are modelled as exact reals.

  The library keeps the volume as an integer level from 0 to 128. \<^verbatim>\<open>set_volume(v)\<close>
  passes \<open>v * 128\<close>, cut to an integer towards zero, to the mixer, which ignores a negative
  level and caps a level above 128; \<^verbatim>\<open>get_volume()\<close> returns the level divided by 128.
\<close>

datatype transport_cmd = Load string | Play int | Stop | Pause | Unpause

record mixer_music =
  level :: int
  issued :: "transport_cmd list"

definition int_cast :: "real \<Rightarrow> int" where
  "int_cast x = (if 0 \<le> x then \<lfloor>x\<rfloor> else \<lceil>x\<rceil>)"

definition set_volume :: "real \<Rightarrow> mixer_music \<Rightarrow> mixer_music" where
  "set_volume v m =
     (let n = int_cast (v * 128) in
      if n < 0 then m else m\<lparr>level := min n 128\<rparr>)"

definition get_volume :: "mixer_music \<Rightarrow> real" where
  "get_volume m = of_int (level m) / 128"



record AudioPlayer =
  is_muted :: bool
  saved_volume :: real
  music :: mixer_music

definition AudioPlayer_init :: "mixer_music \<Rightarrow> AudioPlayer" where
  "AudioPlayer_init m = \<lparr>is_muted = False, saved_volume = 1, music = m\<rparr>"

definition issue :: "transport_cmd list \<Rightarrow> AudioPlayer \<Rightarrow> AudioPlayer" where
  "issue cs a = a\<lparr>music := (music a)\<lparr>issued := issued (music a) @ cs\<rparr>\<rparr>"

definition play :: "string \<Rightarrow> bool \<Rightarrow> AudioPlayer \<Rightarrow> AudioPlayer" where
  "play file_path loop a = issue [Load file_path, Play (if loop then - 1 else 0)] a"

definition stop :: "AudioPlayer \<Rightarrow> AudioPlayer" where
  "stop a = issue [Stop] a"

definition pause :: "AudioPlayer \<Rightarrow> AudioPlayer" where
  "pause a = issue [Pause] a"

definition unpause :: "AudioPlayer \<Rightarrow> AudioPlayer" where
  "unpause a = issue [Unpause] a"

text \<open>\<^verbatim>\<open>toggle_mute\<close> returns the new value of \<^verbatim>\<open>is_muted\<close> and the updated player.\<close>

definition toggle_mute :: "AudioPlayer \<Rightarrow> bool \<times> AudioPlayer" where
  "toggle_mute a =
     (if is_muted a then
        (False, a\<lparr>music := set_volume (saved_volume a) (music a), is_muted := False\<rparr>)
      else
        (True, a\<lparr>saved_volume := get_volume (music a),
                 music := set_volume 0 (music a),
                 is_muted := True\<rparr>))"

section \<open>Session timer (class FocusSession)\<close>

text \<open>
  The session holds a reference to the one audio player of the program; the model keeps
  that player inside the session record, so a call on \<^verbatim>\<open>audio_player\<close> made by the
  main loop is an update of this field. Every function that calls \<^verbatim>\<open>time.time()\<close>
  takes the clock reading as its argument \<open>now\<close>.
\<close>

record FocusSession =
  duration :: real
  audio_player :: AudioPlayer
  is_paused :: bool
  session_active :: bool
  time_remaining :: real
  last_update :: real

definition FocusSession_init :: "real \<Rightarrow> AudioPlayer \<Rightarrow> real \<Rightarrow> FocusSession" where
  "FocusSession_init duration_minutes ap now =
     \<lparr>duration = duration_minutes * 60, audio_player = ap, is_paused = False,
      session_active = True, time_remaining = duration_minutes * 60, last_update = now\<rparr>"

definition toggle_pause :: "real \<Rightarrow> FocusSession \<Rightarrow> bool \<times> FocusSession" where
  "toggle_pause now s =
     (let s1 = s\<lparr>is_paused := \<not> is_paused s\<rparr> in
      if is_paused s1 then (True, s1\<lparr>audio_player := pause (audio_player s1)\<rparr>)
      else (False, s1\<lparr>audio_player := unpause (audio_player s1), last_update := now\<rparr>))"

definition update_timer :: "real \<Rightarrow> FocusSession \<Rightarrow> FocusSession" where
  "update_timer now s =
     (if \<not> is_paused s \<and> session_active s then
        let elapsed = now - last_update s;
            s1 = s\<lparr>time_remaining := time_remaining s - elapsed, last_update := now\<rparr>
        in if time_remaining s1 \<le> 0
           then s1\<lparr>session_active := False, time_remaining := 0\<rparr>
           else s1
      else s)"

definition is_complete :: "FocusSession \<Rightarrow> bool" where
  "is_complete s = (\<not> session_active s)"

text \<open>A sequence of \<^verbatim>\<open>update_timer()\<close> calls, one per clock reading of the list.\<close>

definition update_timer_seq :: "real list \<Rightarrow> FocusSession \<Rightarrow> FocusSession" where
  "update_timer_seq ts s = fold update_timer ts s"

text \<open>
  The calls a client can make on the timer, each with the clock reading it sees.
\<close>

datatype timer_call = Update real | TogglePause real

fun timer_step :: "timer_call \<Rightarrow> FocusSession \<Rightarrow> FocusSession" where
  "timer_step (Update now) s = update_timer now s"
| "timer_step (TogglePause now) s = snd (toggle_pause now s)"

definition timer_run :: "timer_call list \<Rightarrow> FocusSession \<Rightarrow> FocusSession" where
  "timer_run cs s = fold timer_step cs s"

section \<open>Two readings of the time a timer has consumed\<close>

text \<open>
  \<open>running_elapsed paused t cs\<close> follows the specification's words: the wall-clock time
  that passes while the timer is not paused, from the clock reading \<open>t\<close> of the previous
  call (or of the creation) to the last call of \<open>cs\<close>.
\<close>

fun running_elapsed :: "bool \<Rightarrow> real \<Rightarrow> timer_call list \<Rightarrow> real" where
  "running_elapsed paused t [] = 0"
| "running_elapsed paused t (Update now # cs) =
     (if paused then 0 else now - t) + running_elapsed paused now cs"
| "running_elapsed paused t (TogglePause now # cs) =
     (if paused then 0 else now - t) + running_elapsed (\<not> paused) now cs"

text \<open>
  \<open>charged_elapsed paused ref cs\<close> measures every running interval from its start
  \<open>ref\<close> (the creation or the resume) to the last update made in it: the time between
  that update and the pause is left out, and so is the time spent paused.
\<close>

fun charged_elapsed :: "bool \<Rightarrow> real \<Rightarrow> timer_call list \<Rightarrow> real" where
  "charged_elapsed paused ref [] = 0"
| "charged_elapsed paused ref (Update now # cs) =
     (if paused then charged_elapsed paused ref cs
      else (now - ref) + charged_elapsed paused now cs)"
| "charged_elapsed paused ref (TogglePause now # cs) =
     (if paused then charged_elapsed False now cs else charged_elapsed True ref cs)"

text \<open>
  \<open>pause_gaps paused ref cs\<close> is the time left out at the pauses: for every pause, the
  time from the last update before it (or from the start of the running interval, when
  there is none) to the pause.
\<close>

fun pause_gaps :: "bool \<Rightarrow> real \<Rightarrow> timer_call list \<Rightarrow> real" where
  "pause_gaps paused ref [] = 0"
| "pause_gaps paused ref (Update now # cs) =
     (if paused then pause_gaps paused ref cs else pause_gaps paused now cs)"
| "pause_gaps paused ref (TogglePause now # cs) =
     (if paused then pause_gaps False now cs else (now - ref) + pause_gaps True ref cs)"

fun call_time :: "timer_call \<Rightarrow> real" where
  "call_time (Update now) = now"
| "call_time (TogglePause now) = now"

section \<open>Raw input reader (class KeyboardInput)\<close>

text \<open>
  The terminal behind \<^verbatim>\<open>sys.stdin\<close> is \<open>None\<close> when stdin is not a terminal (there
  \<^verbatim>\<open>termios.tcgetattr\<close> raises) and \<open>Some attrs\<close> otherwise, \<open>attrs\<close> being the attribute
  list \<^verbatim>\<open>tcgetattr\<close> returns. \<^verbatim>\<open>tty.setraw\<close> is a library function, taken as the
  parameter \<open>setraw\<close>: the raw attributes it installs, or the error it raises.
\<close>

datatype py_error = TermiosError | ZeroDivisionError

record 'a KeyboardInput =
  old_settings :: "'a list option"

definition KeyboardInput_init :: "'a KeyboardInput" where
  "KeyboardInput_init = \<lparr>old_settings = None\<rparr>"

definition tcgetattr :: "'a list option \<Rightarrow> py_error + 'a list" where
  "tcgetattr tty = (case tty of None \<Rightarrow> Inl TermiosError | Some attrs \<Rightarrow> Inr attrs)"

definition tcsetattr :: "'a list \<Rightarrow> 'a list option \<Rightarrow> py_error + 'a list option" where
  "tcsetattr attrs tty = (case tty of None \<Rightarrow> Inl TermiosError | Some _ \<Rightarrow> Inr (Some attrs))"

text \<open>Python's truth value of \<^verbatim>\<open>self.old_settings\<close>: \<^verbatim>\<open>None\<close> and the empty list are false.\<close>

definition truthy :: "'a list option \<Rightarrow> bool" where
  "truthy v = (case v of None \<Rightarrow> False | Some xs \<Rightarrow> xs \<noteq> [])"

text \<open>
  \<^verbatim>\<open>__enter__\<close> returns the exception it raises (if any), the object and the terminal.
  The assignment to \<^verbatim>\<open>old_settings\<close> stands when \<^verbatim>\<open>setraw\<close> raises after it.
\<close>

definition kb_enter ::
  "bool \<Rightarrow> ('a list \<Rightarrow> py_error + 'a list) \<Rightarrow> 'a KeyboardInput \<Rightarrow> 'a list option
   \<Rightarrow> py_error option \<times> 'a KeyboardInput \<times> 'a list option" where
  "kb_enter win32 setraw kb tty =
     (if \<not> win32 then
        (case tcgetattr tty of
           Inl e \<Rightarrow> (Some e, kb, tty)
         | Inr attrs \<Rightarrow>
             let kb1 = kb\<lparr>old_settings := Some attrs\<rparr> in
             (case setraw attrs of
                Inl e \<Rightarrow> (Some e, kb1, tty)
              | Inr raw \<Rightarrow> (None, kb1, Some raw)))
      else (None, kb, tty))"

definition kb_exit :: "bool \<Rightarrow> 'a KeyboardInput \<Rightarrow> 'a list option \<Rightarrow> py_error + 'a list option" where
  "kb_exit win32 kb tty =
     (if \<not> win32 \<and> truthy (old_settings kb) then
        (case old_settings kb of
           Some attrs \<Rightarrow> tcsetattr attrs tty
         | None \<Rightarrow> Inr tty)
      else Inr tty)"

text \<open>
  \<^verbatim>\<open>with KeyboardInput() as kb: body\<close>. Python does not call \<^verbatim>\<open>__exit__\<close> when
  \<^verbatim>\<open>__enter__\<close> raises; it calls it on every exit of the body, an exception included.
  The body returns its result (or the exception it raises) and the terminal as it left it.
\<close>

definition with_KeyboardInput ::
  "bool \<Rightarrow> ('a list \<Rightarrow> py_error + 'a list)
   \<Rightarrow> ('a KeyboardInput \<Rightarrow> 'a list option \<Rightarrow> (py_error + 'r) \<times> 'a list option)
   \<Rightarrow> 'a list option \<Rightarrow> (py_error + 'r) \<times> 'a list option" where
  "with_KeyboardInput win32 setraw body tty =
     (case kb_enter win32 setraw KeyboardInput_init tty of
        (Some e, kb, tty1) \<Rightarrow> (Inl e, tty1)
      | (None, kb, tty1) \<Rightarrow>
          (case body kb tty1 of
             (r, tty2) \<Rightarrow>
               (case kb_exit win32 kb tty2 of
                  Inl e \<Rightarrow> (Inl e, tty2)
                | Inr tty3 \<Rightarrow> (r, tty3))))"

subsection \<open>Reading one key\<close>

text \<open>
  In this subsection a Python character is its code point, a \<^verbatim>\<open>str\<close> a list of code
  points, and a byte a number below 256. \<^verbatim>\<open>str.lower\<close> of a one-character string is exact
  on ASCII; for any other character Unicode's lowercase mapping, which is not part of the
  program, is the parameter \<open>ul\<close>. \<^verbatim>\<open>get_key\<close> applies \<^verbatim>\<open>lower\<close> to strings of at most one
  character only.
\<close>

definition lower_char :: "(nat \<Rightarrow> nat list) \<Rightarrow> nat \<Rightarrow> nat list" where
  "lower_char ul c =
     (if c < 128 then (if 65 \<le> c \<and> c \<le> 90 then [c + 32] else [c]) else ul c)"

definition lower :: "(nat \<Rightarrow> nat list) \<Rightarrow> nat list \<Rightarrow> nat list" where
  "lower ul s = concat (map (lower_char ul) s)"

text \<open>\<^verbatim>\<open>key.decode('utf-8', errors='ignore')\<close> of one byte: a byte that is not ASCII is
  no complete UTF-8 sequence and is dropped.\<close>

definition decode_ignore :: "nat \<Rightarrow> nat list" where
  "decode_ignore b = (if b < 128 then [b] else [])"

text \<open>
  What \<^verbatim>\<open>get_key\<close> reads from. On \<^verbatim>\<open>win32\<close>: the bytes waiting in the console.
  Elsewhere: the input waiting at the file descriptor of stdin, given as the characters it
  decodes to, and the characters \<^verbatim>\<open>sys.stdin\<close> has already read from the descriptor into
  its own buffer and not yet returned.
\<close>

record key_input =
  console :: "nat list"
  at_fd :: "nat list"
  buffered :: "nat list"

text \<open>
  The \<^verbatim>\<open>win32\<close> branch: the polling loop runs while less than \<open>timeout\<close> has passed,
  so not at all for a timeout that is not positive; \<^verbatim>\<open>kbhit()\<close> is true when input is
  waiting. The second \<^verbatim>\<open>getch()\<close> after a prefix byte takes the next byte.
\<close>

definition get_key_win32 ::
  "(nat \<Rightarrow> nat list) \<Rightarrow> real \<Rightarrow> key_input \<Rightarrow> nat list option \<times> key_input" where
  "get_key_win32 ul timeout inp =
     (if 0 < timeout then
        (case console inp of
           [] \<Rightarrow> (None, inp)
         | k # rest \<Rightarrow>
             if k \<in> set [0, 224] then (None, inp\<lparr>console := drop 1 rest\<rparr>)
             else (Some (lower ul (decode_ignore k)), inp\<lparr>console := rest\<rparr>))
      else (None, inp))"

text \<open>
  The Unix branch. \<^verbatim>\<open>select\<close> looks at the file descriptor only: with nothing waiting
  there the call returns \<^verbatim>\<open>None\<close>, whatever \<^verbatim>\<open>sys.stdin\<close> holds in its buffer. Otherwise
  \<^verbatim>\<open>sys.stdin.read(1)\<close> returns the first buffered character; with an empty buffer it
  first reads all that waits at the descriptor into the buffer. End of file is not
  modelled.
\<close>

definition get_key_unix ::
  "(nat \<Rightarrow> nat list) \<Rightarrow> key_input \<Rightarrow> nat list option \<times> key_input" where
  "get_key_unix ul inp =
     (if at_fd inp = [] then (None, inp)
      else
        (case buffered inp of
           c # rest \<Rightarrow> (Some (lower ul [c]), inp\<lparr>buffered := rest\<rparr>)
         | [] \<Rightarrow>
             (case at_fd inp of
                c # rest \<Rightarrow> (Some (lower ul [c]), inp\<lparr>at_fd := [], buffered := rest\<rparr>)
              | [] \<Rightarrow> (None, inp))))"

definition get_key ::
  "bool \<Rightarrow> (nat \<Rightarrow> nat list) \<Rightarrow> real \<Rightarrow> key_input \<Rightarrow> nat list option \<times> key_input" where
  "get_key win32 ul timeout inp =
     (if win32 then get_key_win32 ul timeout inp else get_key_unix ul inp)"

section \<open>The focus loop of main\<close>

text \<open>
  A loop that waits for the user cannot be run to its end on a finite input: the result
  says whether the loop exited, or is still running when the input ends, and in which
  state.
\<close>

datatype 'a loop_result = Exited 'a | Running 'a

datatype 'a iteration = Continue 'a | Break 'a

text \<open>
  One tick is the key \<^verbatim>\<open>kb.get_key(0.1)\<close> returned and the clock reading after it (the
  clock is taken to advance only while \<^verbatim>\<open>get_key\<close> waits). The loop state is the
  session and \<^verbatim>\<open>last_status_msg\<close>; drawing the status line changes neither.
\<close>

type_synonym tick = "string option \<times> real"

definition focus_tick ::
  "string option \<Rightarrow> real \<Rightarrow> FocusSession \<times> string \<Rightarrow> (FocusSession \<times> string) iteration" where
  "focus_tick key now st =
     (case st of (session, last_status_msg) \<Rightarrow>
        if key = Some '' '' then
          (case toggle_pause now session of
             (paused, s1) \<Rightarrow>
               Continue (update_timer now s1, if paused then ''PAUSED'' else ''RESUMED''))
        else if key = Some ''m'' then
          (case toggle_mute (audio_player session) of
             (muted, ap) \<Rightarrow>
               Continue (update_timer now (session\<lparr>audio_player := ap\<rparr>),
                         if muted then ''MUTED'' else ''SOUND ON''))
        else if key = Some ''q'' then
          Break (session\<lparr>session_active := False\<rparr>, last_status_msg)
        else Continue (update_timer now session, last_status_msg))"

fun focus_loop :: "tick list \<Rightarrow> FocusSession \<times> string \<Rightarrow> (FocusSession \<times> string) loop_result" where
  "focus_loop [] st = (if is_complete (fst st) then Exited st else Running st)"
| "focus_loop ((key, now) # ticks) st =
     (if is_complete (fst st) then Exited st
      else (case focus_tick key now st of
              Break st' \<Rightarrow> Exited st'
            | Continue st' \<Rightarrow> focus_loop ticks st'))"

text \<open>What the user is shown after the loop.\<close>

datatype ui_event =
  PanelSessionComplete | ShowNotification | PromptDismiss | PanelSessionEndedEarly

definition get_asset_path :: "string \<Rightarrow> string" where
  "get_asset_path filename = ''assets/'' @ filename"

definition session_end :: "FocusSession \<Rightarrow> ui_event list \<times> FocusSession" where
  "session_end session =
     (let s1 = session\<lparr>audio_player := stop (audio_player session)\<rparr> in
      if time_remaining s1 = 0 then
        ([PanelSessionComplete, ShowNotification, PromptDismiss],
         s1\<lparr>audio_player := play (get_asset_path ''notification.wav'') True (audio_player s1)\<rparr>)
      else ([PanelSessionEndedEarly], s1))"

text \<open>The focus phase of \<^verbatim>\<open>main\<close>, from the start of the rain sound to the \<^verbatim>\<open>finally\<close>.\<close>

definition focus_phase ::
  "int \<Rightarrow> AudioPlayer \<Rightarrow> real \<Rightarrow> tick list \<Rightarrow> (ui_event list \<times> FocusSession) loop_result" where
  "focus_phase minutes ap t0 ticks =
     (let ap1 = play (get_asset_path ''rain.mp3'') True ap;
          session = FocusSession_init (of_int minutes) ap1 t0
      in case focus_loop ticks (session, []) of
           Running st \<Rightarrow> Running ([], fst st)
         | Exited st \<Rightarrow>
             (case session_end (fst st) of
                (ui, s1) \<Rightarrow> Exited (ui, s1\<lparr>audio_player := stop (audio_player s1)\<rparr>)))"

section \<open>Meditation playback (class MeditationPlayer)\<close>

record MeditationPlayer =
  med_audio_player :: AudioPlayer
  file_path :: string
  skip_requested :: bool
  med_is_paused :: bool

definition MeditationPlayer_init :: "AudioPlayer \<Rightarrow> string \<Rightarrow> MeditationPlayer" where
  "MeditationPlayer_init ap path =
     \<lparr>med_audio_player = ap, file_path = path, skip_requested = False, med_is_paused = False\<rparr>"

text \<open>
  The locals of \<^verbatim>\<open>play_with_progress\<close> that the loop carries beside the player, and the
  \<^verbatim>\<open>completed\<close> value it hands to the progress bar. The description of the bar is left
  out.
\<close>

record meditation_loop =
  player :: MeditationPlayer
  start_time :: real
  elapsed_time :: real
  completed :: real

text \<open>
  One poll of the meditation loop: what \<^verbatim>\<open>audio_player.is_playing()\<close> answers when the
  outer loop test runs before the poll (the track may end at any moment, so it is an
  input), the key \<^verbatim>\<open>kb.get_key(0.1)\<close> returns, and the clock reading after it.
\<close>

record med_poll =
  poll_busy :: bool
  poll_key :: "string option"
  poll_now :: real

definition poll :: "bool \<Rightarrow> string option \<Rightarrow> real \<Rightarrow> med_poll" where
  "poll b k t = \<lparr>poll_busy = b, poll_key = k, poll_now = t\<rparr>"

text \<open>
  Where the loop stands when the polls given to it run out: at the test of the outer loop,
  or inside the inner pause loop (with its \<^verbatim>\<open>pause_start\<close>). A run returns, raises, or
  is left waiting for input.
\<close>

datatype med_wait = AtLoopTest meditation_loop | InPauseLoop meditation_loop real

datatype ('a, 'w) run_result = Returned 'a | Raised py_error | Waiting 'w

text \<open>The key dispatch at the head of the outer loop body.\<close>

definition med_key :: "string option \<Rightarrow> MeditationPlayer \<Rightarrow> MeditationPlayer iteration" where
  "med_key k m =
     (if k = Some '' '' then
        (let m1 = m\<lparr>med_is_paused := \<not> med_is_paused m\<rparr> in
         if med_is_paused m1
         then Continue (m1\<lparr>med_audio_player := pause (med_audio_player m1)\<rparr>)
         else Continue (m1\<lparr>med_audio_player := unpause (med_audio_player m1)\<rparr>))
      else if k = Some ''s'' then Break (m\<lparr>skip_requested := True\<rparr>)
      else Continue m)"

text \<open>The statements after the inner loop: \<^verbatim>\<open>start_time\<close> moves by the length of the
  pause unless a skip was requested. \<open>t\<close> is the clock reading when the loop is left.\<close>

definition after_pause :: "real \<Rightarrow> real \<Rightarrow> meditation_loop \<Rightarrow> meditation_loop" where
  "after_pause pause_start t st =
     (if \<not> skip_requested (player st)
      then st\<lparr>start_time := start_time st + (t - pause_start)\<rparr>
      else st)"

text \<open>
  \<open>med_loop\<close> is the outer loop
  \<^verbatim>\<open>while (is_playing() or self.is_paused) and not self.skip_requested\<close>, and \<open>pause_loop\<close>
  the inner loop \<^verbatim>\<open>while self.is_paused and not self.skip_requested\<close> followed by the rest
  of the outer loop. \<open>duration_ms\<close> is the track length. The progress percentage
  \<^verbatim>\<open>elapsed_time / duration_ms\<close> is a float division, which raises for a divisor of 0.
\<close>

function med_loop ::
    "real \<Rightarrow> med_poll list \<Rightarrow> meditation_loop \<Rightarrow> (meditation_loop, med_wait) run_result"
  and pause_loop ::
    "real \<Rightarrow> med_poll list \<Rightarrow> real \<Rightarrow> real \<Rightarrow> meditation_loop
     \<Rightarrow> (meditation_loop, med_wait) run_result" where
  "med_loop duration_ms [] st =
     (if skip_requested (player st) then Returned st else Waiting (AtLoopTest st))"
| "med_loop duration_ms (p # ps) st =
     (if \<not> ((poll_busy p \<or> med_is_paused (player st)) \<and> \<not> skip_requested (player st))
      then Returned st
      else
        (case med_key (poll_key p) (player st) of
           Break m1 \<Rightarrow> Returned (st\<lparr>player := m1\<rparr>)
         | Continue m1 \<Rightarrow>
             if \<not> med_is_paused m1 then
               (let elapsed = (poll_now p - start_time st) * 1000 in
                if duration_ms = 0 then Raised ZeroDivisionError
                else
                  (let st1 = st\<lparr>player := m1, elapsed_time := elapsed,
                                completed := min (elapsed / duration_ms * 100) 100\<rparr>
                   in if duration_ms \<le> elapsed then Returned st1
                      else med_loop duration_ms ps st1))
             else pause_loop duration_ms ps (poll_now p) (poll_now p) (st\<lparr>player := m1\<rparr>)))"
| "pause_loop duration_ms [] pause_start t st =
     (if med_is_paused (player st) \<and> \<not> skip_requested (player st)
      then Waiting (InPauseLoop st pause_start)
      else med_loop duration_ms [] (after_pause pause_start t st))"
| "pause_loop duration_ms (p # ps) pause_start t st =
     (if med_is_paused (player st) \<and> \<not> skip_requested (player st) then
        (if poll_key p = Some '' '' then
           pause_loop duration_ms ps pause_start (poll_now p)
             (st\<lparr>player := (player st)\<lparr>med_is_paused := False,
                   med_audio_player := unpause (med_audio_player (player st))\<rparr>\<rparr>)
         else if poll_key p = Some ''s'' then
           med_loop duration_ms ps
             (after_pause pause_start (poll_now p)
                (st\<lparr>player := (player st)\<lparr>skip_requested := True\<rparr>\<rparr>))
         else pause_loop duration_ms ps pause_start (poll_now p) st)
      else med_loop duration_ms (p # ps) (after_pause pause_start t st))"
  by pat_completeness auto
termination
  by (relation "measure (\<lambda>x. case x of
        Inl (d, ps, st) \<Rightarrow> 2 * length ps
      | Inr (d, ps, a, t, st) \<Rightarrow> 2 * length ps + 1)") auto

text \<open>Giving more polls to a run that was left waiting.\<close>

definition resume ::
  "real \<Rightarrow> med_poll list \<Rightarrow> med_wait \<Rightarrow> (meditation_loop, med_wait) run_result" where
  "resume duration_ms ps w =
     (case w of
        AtLoopTest st \<Rightarrow> med_loop duration_ms ps st
      | InPauseLoop st pause_start \<Rightarrow> pause_loop duration_ms ps pause_start pause_start st)"

datatype med_outcome = MeditationSkipped | MeditationComplete

text \<open>
  \<^verbatim>\<open>play_with_progress\<close>: \<open>duration_ms\<close> is the track length \<^verbatim>\<open>pygame.mixer.Sound\<close>
  reports times 1000, \<open>t0\<close> the clock reading taken for \<^verbatim>\<open>start_time\<close>. The outcome is
  the message that is printed after the loop. An exception raised in the loop leaves the
  function before \<^verbatim>\<open>audio_player.stop()\<close>.
\<close>

definition play_with_progress ::
  "real \<Rightarrow> real \<Rightarrow> med_poll list \<Rightarrow> MeditationPlayer
   \<Rightarrow> (med_outcome \<times> MeditationPlayer, med_wait) run_result" where
  "play_with_progress duration_ms t0 polls m =
     (let m0 = m\<lparr>med_audio_player := play (file_path m) False (med_audio_player m)\<rparr>
      in case med_loop duration_ms polls
                \<lparr>player = m0, start_time = t0, elapsed_time = 0, completed = 0\<rparr> of
           Waiting w \<Rightarrow> Waiting w
         | Raised e \<Rightarrow> Raised e
         | Returned st \<Rightarrow>
             (let m1 = (player st)\<lparr>med_audio_player := stop (med_audio_player (player st))\<rparr>
              in Returned (if skip_requested m1 then MeditationSkipped else MeditationComplete,
                           m1)))"

section \<open>An invariant of the focus loop\<close>

text \<open>While the session is active, time remains.\<close>

definition positive_while_active :: "FocusSession \<Rightarrow> bool" where
  "positive_while_active s = (session_active s \<longrightarrow> 0 < time_remaining s)"

section \<open>Sample states\<close>

text \<open>The mixer as \<^verbatim>\<open>pygame.mixer.init()\<close> leaves it: full volume, nothing issued.\<close>

definition mixer_init :: mixer_music where
  "mixer_init = \<lparr>level = 128, issued = []\<rparr>"

text \<open>A one-minute session created at clock reading 0.\<close>

definition demo_session :: FocusSession where
  "demo_session = FocusSession_init 1 (AudioPlayer_init mixer_init) 0"

text \<open>The meditation player as \<^verbatim>\<open>main\<close> creates it.\<close>

definition demo_meditation :: MeditationPlayer where
  "demo_meditation = MeditationPlayer_init (AudioPlayer_init mixer_init) (get_asset_path ''meditation.mp3'')"

text \<open>The player after \<^verbatim>\<open>play_with_progress\<close> has started the track.\<close>

definition demo_started :: MeditationPlayer where
  "demo_started = demo_meditation\<lparr>med_audio_player :=
     play (file_path demo_meditation) False (med_audio_player demo_meditation)\<rparr>"

text \<open>
  A terminal's attribute list (seven entries, as \<^verbatim>\<open>tcgetattr\<close> returns them), a
  \<^verbatim>\<open>setraw\<close> that clears two of the flag words, and a body that returns normally and
  leaves the terminal as it found it.
\<close>

definition demo_attrs :: "nat list" where
  "demo_attrs = [17664, 5, 191, 35387, 15, 15, 0]"

definition demo_setraw :: "nat list \<Rightarrow> py_error + nat list" where
  "demo_setraw attrs = Inr (attrs[0 := 0, 3 := 0])"

definition demo_body :: "nat KeyboardInput \<Rightarrow> nat list option \<Rightarrow> (py_error + bool) \<times> nat list option" where
  "demo_body kb tty = (Inr True, tty)"

section \<open>Properties of the session timer\<close>

lemma update_timer_paused: "is_paused s \<Longrightarrow> update_timer now s = s"
  by (simp add: update_timer_def)

lemma update_timer_inactive: "\<not> session_active s \<Longrightarrow> update_timer now s = s"
  by (simp add: update_timer_def)

lemma update_timer_seq_paused: "is_paused s \<Longrightarrow> update_timer_seq ts s = s"
  unfolding update_timer_seq_def
  by (induction ts) (simp_all add: update_timer_paused)

lemma update_timer_seq_inactive: "\<not> session_active s \<Longrightarrow> update_timer_seq ts s = s"
  unfolding update_timer_seq_def
  by (induction ts) (simp_all add: update_timer_inactive)

text \<open>
  C2. In a paused session, any finite sequence of \<^verbatim>\<open>update_timer()\<close> calls leaves
  \<^verbatim>\<open>time_remaining\<close> unchanged, whatever the clock readings of the calls are.
\<close>

theorem C2_paused_updates_keep_time_remaining:
  "is_paused s \<Longrightarrow> time_remaining (update_timer_seq ts s) = time_remaining s"
  by (simp add: update_timer_seq_paused)

theorem C2_paused_updates_witness:
  "is_paused (snd (toggle_pause 5 (FocusSession_init 1 (AudioPlayer_init mixer_init) 0)))
   \<and> time_remaining (update_timer_seq [6, 70, 500]
        (snd (toggle_pause 5 (FocusSession_init 1 (AudioPlayer_init mixer_init) 0)))) = 60"
proof -
  let ?s = "snd (toggle_pause 5 (FocusSession_init 1 (AudioPlayer_init mixer_init) 0))"
  have p: "is_paused ?s"
    by (simp add: toggle_pause_def FocusSession_init_def Let_def)
  have r: "time_remaining ?s = 60"
    by (simp add: toggle_pause_def FocusSession_init_def Let_def)
  from C2_paused_updates_keep_time_remaining [OF p, of "[6, 70, 500]"] p r
  show ?thesis by simp
qed

section \<open>C1: what the timer charges\<close>

lemma timer_run_Nil: "timer_run [] s = s"
  by (simp add: timer_run_def)

lemma timer_run_Cons: "timer_run (c # cs) s = timer_run cs (timer_step c s)"
  by (simp add: timer_run_def)

lemma toggle_pause_fields:
  "session_active (snd (toggle_pause now s)) = session_active s"
  "time_remaining (snd (toggle_pause now s)) = time_remaining s"
  "is_paused (snd (toggle_pause now s)) = (\<not> is_paused s)"
  "last_update (snd (toggle_pause now s)) = (if is_paused s then now else last_update s)"
  "duration (snd (toggle_pause now s)) = duration s"
  by (simp_all add: toggle_pause_def Let_def)

lemma timer_step_inactive:
  "\<not> session_active s \<Longrightarrow>
   \<not> session_active (timer_step c s) \<and> time_remaining (timer_step c s) = time_remaining s"
  by (cases c) (simp_all add: update_timer_inactive toggle_pause_fields)

lemma timer_run_inactive:
  "\<not> session_active s \<Longrightarrow>
   \<not> session_active (timer_run cs s) \<and> time_remaining (timer_run cs s) = time_remaining s"
proof (induction cs arbitrary: s)
  case Nil
  then show ?case by (simp add: timer_run_Nil)
next
  case (Cons c cs)
  from timer_step_inactive [OF Cons.prems, of c] Cons.IH [of "timer_step c s"]
  show ?case by (simp add: timer_run_Cons)
qed

lemma charged_elapsed_nonneg:
  "sorted (map call_time cs) \<Longrightarrow> (\<not> paused \<Longrightarrow> \<forall>c\<in>set cs. ref \<le> call_time c)
   \<Longrightarrow> 0 \<le> charged_elapsed paused ref cs"
proof (induction paused ref cs rule: charged_elapsed.induct)
  case (1 paused ref)
  then show ?case by simp
next
  case (2 paused ref now cs)
  then show ?case by (cases paused) auto
next
  case (3 paused ref now cs)
  then show ?case by (cases paused) auto
qed

lemma update_timer_running:
  "\<not> is_paused s \<Longrightarrow> session_active s \<Longrightarrow>
   time_remaining (update_timer now s) = max 0 (time_remaining s - (now - last_update s))
   \<and> last_update (update_timer now s) = now
   \<and> is_paused (update_timer now s) = False
   \<and> session_active (update_timer now s) = (0 < time_remaining s - (now - last_update s))"
  by (auto simp add: update_timer_def Let_def)

lemma timer_run_charged:
  "session_active s \<Longrightarrow> 0 \<le> time_remaining s \<Longrightarrow> sorted (map call_time cs)
   \<Longrightarrow> (\<not> is_paused s \<Longrightarrow> \<forall>c\<in>set cs. last_update s \<le> call_time c)
   \<Longrightarrow> time_remaining (timer_run cs s)
       = max 0 (time_remaining s - charged_elapsed (is_paused s) (last_update s) cs)"
proof (induction cs arbitrary: s)
  case Nil
  then show ?case by (simp add: timer_run_Nil)
next
  case (Cons c cs)
  have srt: "sorted (map call_time cs)" using Cons.prems(3) by simp
  have later: "\<forall>d\<in>set cs. call_time c \<le> call_time d" using Cons.prems(3) by auto
  show ?case
  proof (cases c)
    case (Update now)
    show ?thesis
    proof (cases "is_paused s")
      case True
      then show ?thesis
        using Cons.IH [of s] Cons.prems srt Update
        by (simp add: timer_run_Cons update_timer_paused)
    next
      case False
      let ?s' = "update_timer now s"
      note u = update_timer_running [OF False Cons.prems(1), of now]
      show ?thesis
      proof (cases "0 < time_remaining s - (now - last_update s)")
        case True
        have "time_remaining (timer_run cs ?s')
              = max 0 (time_remaining ?s' - charged_elapsed (is_paused ?s') (last_update ?s') cs)"
          using u True later Update srt by (intro Cons.IH) auto
        then show ?thesis using u True False Update
          by (simp add: timer_run_Cons algebra_simps)
      next
        case neg: False
        have inact: "\<not> session_active ?s'" using u neg by simp
        have z: "time_remaining ?s' = 0" using u neg by simp
        have nn: "0 \<le> charged_elapsed False now cs"
          using later Update srt by (intro charged_elapsed_nonneg) auto
        show ?thesis using timer_run_inactive [OF inact, of cs] z nn neg False Update
          by (simp add: timer_run_Cons)
      qed
    qed
  next
    case (TogglePause now)
    let ?s' = "snd (toggle_pause now s)"
    have "time_remaining (timer_run cs ?s')
          = max 0 (time_remaining ?s' - charged_elapsed (is_paused ?s') (last_update ?s') cs)"
      using Cons.prems later TogglePause srt
      by (intro Cons.IH) (auto simp add: toggle_pause_fields)
    then show ?thesis using TogglePause
      by (simp add: timer_run_Cons toggle_pause_fields)
  qed
qed

lemma charged_elapsed_split:
  "charged_elapsed paused ref (pre @ Update a # Update b # post)
   = charged_elapsed paused ref (pre @ Update b # post)"
  by (induction paused ref pre rule: charged_elapsed.induct) simp_all

lemma running_elapsed_charged_gaps:
  "(\<not> paused \<Longrightarrow> t = ref)
   \<Longrightarrow> running_elapsed paused t cs = charged_elapsed paused ref cs + pause_gaps paused ref cs"
proof (induction cs arbitrary: paused t ref)
  case Nil
  then show ?case by simp
next
  case (Cons c cs)
  show ?case
  proof (cases c)
    case (Update now)
    then show ?thesis
      using Cons.prems Cons.IH [of paused now now] Cons.IH [of paused now ref]
      by (cases paused) simp_all
  next
    case (TogglePause now)
    then show ?thesis
      using Cons.prems Cons.IH [of "\<not> paused" now now] Cons.IH [of "\<not> paused" now ref]
      by (cases paused) simp_all
  qed
qed

text \<open>
  C1. For a timer created with a duration of \<open>minutes * 60\<close> seconds at clock reading \<open>t0\<close>,
  and any sequence of \<^verbatim>\<open>update_timer()\<close> and \<^verbatim>\<open>toggle_pause()\<close> calls whose clock readings
  do not decrease, \<^verbatim>\<open>time_remaining\<close> ends as the maximum of 0 and the duration minus the
  time charged: each running interval counted from its start (creation or resume) to the
  last update made in it. The time charged is the wall-clock time the timer spent
  un-paused, less exactly the time between the last update and each pause; time spent
  paused is in neither. Splitting one update into two changes nothing.
\<close>

theorem C1_time_remaining_is_duration_minus_charged:
  assumes "0 \<le> minutes" and "sorted (t0 # map call_time cs)"
  shows "time_remaining (timer_run cs (FocusSession_init minutes ap t0))
           = max 0 (minutes * 60 - charged_elapsed False t0 cs)
       \<and> charged_elapsed False t0 cs = running_elapsed False t0 cs - pause_gaps False t0 cs
       \<and> (\<forall>pre a b post. cs = pre @ Update a # Update b # post \<longrightarrow>
            time_remaining (timer_run (pre @ Update b # post) (FocusSession_init minutes ap t0))
            = time_remaining (timer_run cs (FocusSession_init minutes ap t0)))"
proof -
  let ?s = "FocusSession_init minutes ap t0"
  have init: "session_active ?s" "0 \<le> time_remaining ?s" "\<not> is_paused ?s"
    "last_update ?s = t0" "time_remaining ?s = minutes * 60"
    using assms(1) by (simp_all add: FocusSession_init_def)
  have formula: "time_remaining (timer_run ds ?s) = max 0 (minutes * 60 - charged_elapsed False t0 ds)"
    if "sorted (t0 # map call_time ds)" for ds
    using timer_run_charged [of ?s ds] init that by simp
  have gaps: "charged_elapsed False t0 cs = running_elapsed False t0 cs - pause_gaps False t0 cs"
    using running_elapsed_charged_gaps [of False t0 t0 cs] by simp
  have "time_remaining (timer_run (pre @ Update b # post) ?s) = time_remaining (timer_run cs ?s)"
    if eq: "cs = pre @ Update a # Update b # post" for pre a b post
  proof -
    have "sorted (t0 # map call_time (pre @ Update b # post))"
      using assms(2) unfolding eq by (auto simp add: sorted_append)
    from formula [OF this] formula [OF assms(2)] show ?thesis
      unfolding eq by (simp add: charged_elapsed_split)
  qed
  with formula [OF assms(2)] gaps show ?thesis by blast
qed

theorem C1_charged_witness:
  "(0::real) \<le> 21
   \<and> sorted (0 # map call_time
        [Update 2, Update 4, TogglePause 5, Update 9, TogglePause 15, Update 20])
   \<and> time_remaining (timer_run
        [Update 2, Update 4, TogglePause 5, Update 9, TogglePause 15, Update 20]
        (FocusSession_init 21 (AudioPlayer_init mixer_init) 0)) = 21 * 60 - 9
   \<and> running_elapsed False 0
        [Update 2, Update 4, TogglePause 5, Update 9, TogglePause 15, Update 20] = 10
   \<and> pause_gaps False 0
        [Update 2, Update 4, TogglePause 5, Update 9, TogglePause 15, Update 20] = 1
   \<and> time_remaining (timer_run
        [Update 4, TogglePause 5, Update 9, TogglePause 15, Update 20]
        (FocusSession_init 21 (AudioPlayer_init mixer_init) 0)) = 21 * 60 - 9"
proof -
  let ?cs = "[Update 2, Update 4, TogglePause 5, Update 9, TogglePause 15, Update 20]"
  have h1: "(0::real) \<le> 21" by simp
  have h2: "sorted (0 # map call_time ?cs)" by simp
  note inst = C1_time_remaining_is_duration_minus_charged
    [OF h1 h2, of "AudioPlayer_init mixer_init"]
  have a: "time_remaining (timer_run ?cs (FocusSession_init 21 (AudioPlayer_init mixer_init) 0))
           = 21 * 60 - 9"
    using inst by simp
  have g: "running_elapsed False 0 ?cs = 10" "pause_gaps False 0 ?cs = 1"
    by simp_all
  have "time_remaining (timer_run ([] @ Update 4 # [TogglePause 5, Update 9, TogglePause 15, Update 20])
          (FocusSession_init 21 (AudioPlayer_init mixer_init) 0))
        = time_remaining (timer_run ?cs (FocusSession_init 21 (AudioPlayer_init mixer_init) 0))"
    using inst by (elim conjE allE [of _ "[]"] allE [of _ 2] allE [of _ 4]
      allE [of _ "[TogglePause 5, Update 9, TogglePause 15, Update 20]"]) simp
  with a g h1 h2 show ?thesis by simp
qed

text \<open>
  C3 (as amended). A call of \<^verbatim>\<open>update_timer()\<close> on a running timer (not paused, still
  active) sets \<^verbatim>\<open>last_update\<close> to the current time and takes the elapsed time off
  \<^verbatim>\<open>time_remaining\<close>, stopping at 0; a call on a paused or completed timer changes
  neither. \<^verbatim>\<open>last_update\<close> is brought to the current time by \<^verbatim>\<open>toggle_pause()\<close> when it
  resumes the timer.
\<close>

theorem C3_last_update_only_when_running:
  "last_update (update_timer now s)
     = (if \<not> is_paused s \<and> session_active s then now else last_update s)
   \<and> time_remaining (update_timer now s)
     = (if \<not> is_paused s \<and> session_active s
        then max 0 (time_remaining s - (now - last_update s)) else time_remaining s)
   \<and> last_update (snd (toggle_pause now s)) = (if is_paused s then now else last_update s)"
  by (simp add: update_timer_def toggle_pause_def Let_def max_def)

theorem C3_last_update_witness:
  "last_update (update_timer 4 demo_session) = 4
   \<and> time_remaining (update_timer 4 demo_session) = 56
   \<and> last_update (update_timer 70 (snd (toggle_pause 5 demo_session))) = 0
   \<and> last_update (snd (toggle_pause 9 (snd (toggle_pause 5 demo_session)))) = 9"
  using C3_last_update_only_when_running [of 4 demo_session]
    C3_last_update_only_when_running [of 70 "snd (toggle_pause 5 demo_session)"]
    C3_last_update_only_when_running [of 9 "snd (toggle_pause 5 demo_session)"]
  by (simp add: demo_session_def FocusSession_init_def toggle_pause_def Let_def)

text \<open>
  The claim as stated has every update advance \<^verbatim>\<open>last_update\<close>, paused or not. A session
  paused at 5 and updated at 70 keeps the \<^verbatim>\<open>last_update\<close> of its creation.
\<close>

theorem C3_paused_update_counterexample:
  "is_paused (snd (toggle_pause 5 demo_session))
   \<and> last_update (update_timer 70 (snd (toggle_pause 5 demo_session))) \<noteq> 70"
  by (simp add: demo_session_def FocusSession_init_def toggle_pause_def update_timer_def Let_def)

text \<open>
  C4. An update in which \<^verbatim>\<open>time_remaining\<close> reaches 0 or less completes the timer and sets
  \<^verbatim>\<open>time_remaining\<close> to exactly 0; an update completes an active timer in no other way;
  on a completed timer no sequence of updates changes any field, and no sequence of
  updates and pause toggles makes the timer active again or changes \<^verbatim>\<open>time_remaining\<close>,
  so the complete state is entered at most once.
\<close>

theorem C4_complete_is_terminal:
  "(\<not> is_paused s \<and> session_active s \<and> time_remaining s - (now - last_update s) \<le> 0
      \<longrightarrow> is_complete (update_timer now s) \<and> time_remaining (update_timer now s) = 0)
   \<and> (session_active s \<and> is_complete (update_timer now s)
      \<longrightarrow> \<not> is_paused s \<and> time_remaining s - (now - last_update s) \<le> 0
          \<and> time_remaining (update_timer now s) = 0)
   \<and> (is_complete s \<longrightarrow> update_timer_seq ts s = s)
   \<and> (is_complete s
      \<longrightarrow> is_complete (timer_run cs s) \<and> time_remaining (timer_run cs s) = time_remaining s)"
proof (intro conjI impI)
  assume "\<not> is_paused s \<and> session_active s \<and> time_remaining s - (now - last_update s) \<le> 0"
  then show "is_complete (update_timer now s)" "time_remaining (update_timer now s) = 0"
    by (simp_all add: update_timer_def is_complete_def Let_def)
next
  assume a: "session_active s \<and> is_complete (update_timer now s)"
  then show "\<not> is_paused s" "time_remaining s - (now - last_update s) \<le> 0"
    "time_remaining (update_timer now s) = 0"
    by (auto simp add: update_timer_def is_complete_def Let_def split: if_splits)
next
  assume "is_complete s"
  then show "update_timer_seq ts s = s"
    by (simp add: is_complete_def update_timer_seq_inactive)
next
  assume "is_complete s"
  then have "\<not> session_active s" by (simp add: is_complete_def)
  from timer_run_inactive [OF this, of cs]
  show "is_complete (timer_run cs s)" "time_remaining (timer_run cs s) = time_remaining s"
    by (simp_all add: is_complete_def)
qed

theorem C4_complete_witness:
  "is_complete (update_timer 61 demo_session)
   \<and> time_remaining (update_timer 61 demo_session) = 0
   \<and> update_timer_seq [62, 100, 3] (update_timer 61 demo_session) = update_timer 61 demo_session
   \<and> is_complete (timer_run [TogglePause 70, Update 80, TogglePause 90, Update 95]
        (update_timer 61 demo_session))
   \<and> time_remaining (timer_run [TogglePause 70, Update 80, TogglePause 90, Update 95]
        (update_timer 61 demo_session)) = 0"
proof -
  have pre: "\<not> is_paused demo_session \<and> session_active demo_session
             \<and> time_remaining demo_session - (61 - last_update demo_session) \<le> 0"
    by (simp add: demo_session_def FocusSession_init_def)
  have c: "is_complete (update_timer 61 demo_session)"
    "time_remaining (update_timer 61 demo_session) = 0"
    using C4_complete_is_terminal [of demo_session 61] pre by simp_all
  show ?thesis
    using c C4_complete_is_terminal [of "update_timer 61 demo_session" 0 "[62, 100, 3]"
        "[TogglePause 70, Update 80, TogglePause 90, Update 95]"]
    by simp
qed

section \<open>Properties of the audio channel\<close>









text \<open>
  C10. \<^verbatim>\<open>toggle_mute()\<close> changes \<^verbatim>\<open>is_muted\<close>, \<^verbatim>\<open>saved_volume\<close> and the volume, and issues
  no transport command. A tick of the focus loop with the key \<^verbatim>\<open>m\<close> leaves the session as
  a tick without a key at the same clock reading does, the audio player apart: the
  countdown and the pause state do not depend on the keypress.
\<close>

theorem C10_toggle_mute_frame:
  "snd (toggle_mute a)
     = a\<lparr>is_muted := \<not> is_muted a,
         saved_volume := (if is_muted a then saved_volume a else get_volume (music a)),
         music := (music a)\<lparr>level :=
           level (set_volume (if is_muted a then saved_volume a else 0) (music a))\<rparr>\<rparr>
   \<and> issued (music (snd (toggle_mute a))) = issued (music a)
   \<and> focus_tick (Some ''m'') now (s, msg)
     = Continue ((update_timer now s)\<lparr>audio_player := snd (toggle_mute (audio_player s))\<rparr>,
                 if fst (toggle_mute (audio_player s)) then ''MUTED'' else ''SOUND ON'')
   \<and> focus_tick None now (s, msg) = Continue (update_timer now s, msg)"
  by (simp add: toggle_mute_def set_volume_def focus_tick_def update_timer_def Let_def)

section \<open>Properties of the focus loop\<close>

lemma focus_loop_append:
  "focus_loop pre st = Running st' \<Longrightarrow> focus_loop (pre @ rest) st = focus_loop rest st'"
proof (induction pre st rule: focus_loop.induct)
  case (1 st)
  then show ?case by (cases rest) (auto split: if_splits)
next
  case (2 key now ticks st)
  then show ?case by (auto split: if_splits iteration.splits)
qed

lemma focus_loop_Running_active:
  "focus_loop pre st = Running st' \<Longrightarrow> \<not> is_complete (fst st')"
  by (induction pre st rule: focus_loop.induct) (auto split: if_splits iteration.splits)

lemma update_timer_positive:
  "positive_while_active s \<Longrightarrow> positive_while_active (update_timer now s)"
  by (simp add: positive_while_active_def update_timer_def Let_def)

lemma focus_tick_positive:
  "positive_while_active (fst st) \<Longrightarrow> focus_tick key now st = Continue st'
   \<Longrightarrow> positive_while_active (fst st')"
proof -
  assume p: "positive_while_active (fst st)" and c: "focus_tick key now st = Continue st'"
  obtain s msg where st: "st = (s, msg)" by (cases st)
  have a: "positive_while_active (snd (toggle_pause now s))"
    using p st by (simp add: positive_while_active_def toggle_pause_def Let_def)
  have b: "positive_while_active (s\<lparr>audio_player := ap\<rparr>)" for ap
    using p st by (simp add: positive_while_active_def)
  from c st show ?thesis
    using update_timer_positive [OF a, of now] update_timer_positive [OF b, of now]
      update_timer_positive [of s now] p
    by (auto simp add: focus_tick_def split: if_splits prod.splits)
qed

lemma focus_loop_positive:
  "positive_while_active (fst st) \<Longrightarrow> focus_loop pre st = Running st'
   \<Longrightarrow> positive_while_active (fst st')"
proof (induction pre st rule: focus_loop.induct)
  case (1 st)
  then show ?case by (auto split: if_splits)
next
  case (2 key now ticks st)
  then show ?case
    by (auto split: if_splits iteration.splits dest: focus_tick_positive)
qed

text \<open>
  C7. In a session of a positive number of minutes, when the loop is still running after
  the ticks \<open>pre\<close> and the next key is \<^verbatim>\<open>q\<close>, the loop exits with \<^verbatim>\<open>session_active\<close> false
  and \<^verbatim>\<open>time_remaining\<close> as it was, which is positive; the user is shown the
  ended-early panel and no notification. For any session, the completion panel, the
  notification and the notification sound come exactly when \<^verbatim>\<open>time_remaining\<close> is 0.
\<close>

theorem C7_quit_keeps_time_remaining:
  assumes "0 < minutes"
    and "focus_phase minutes ap t0 pre = Running ([], s)"
  shows "focus_phase minutes ap t0 (pre @ (Some ''q'', tq) # post)
           = Exited ([PanelSessionEndedEarly],
                     s\<lparr>session_active := False, audio_player := stop (stop (audio_player s))\<rparr>)
       \<and> 0 < time_remaining s
       \<and> fst (session_end x)
           = (if time_remaining x = 0
              then [PanelSessionComplete, ShowNotification, PromptDismiss]
              else [PanelSessionEndedEarly])
       \<and> audio_player (snd (session_end x))
           = (if time_remaining x = 0
              then play (get_asset_path ''notification.wav'') True (stop (audio_player x))
              else stop (audio_player x))"
proof -
  let ?start = "FocusSession_init (of_int minutes) (play (get_asset_path ''rain.mp3'') True ap) t0"
  from assms(2) obtain msg where run: "focus_loop pre (?start, []) = Running (s, msg)"
    by (auto simp add: focus_phase_def Let_def split: loop_result.splits prod.splits)
  have "positive_while_active (fst (?start, []))"
    using assms(1) by (simp add: positive_while_active_def FocusSession_init_def)
  from focus_loop_positive [OF this run] focus_loop_Running_active [OF run]
  have pos: "0 < time_remaining s" and act: "session_active s"
    by (simp_all add: positive_while_active_def is_complete_def)
  have "focus_loop (pre @ (Some ''q'', tq) # post) (?start, [])
        = Exited (s\<lparr>session_active := False\<rparr>, msg)"
    using focus_loop_append [OF run] act
    by (simp add: is_complete_def focus_tick_def)
  then have "focus_phase minutes ap t0 (pre @ (Some ''q'', tq) # post)
           = Exited ([PanelSessionEndedEarly],
                     s\<lparr>session_active := False, audio_player := stop (stop (audio_player s))\<rparr>)"
    using pos by (simp add: focus_phase_def session_end_def Let_def)
  moreover have "fst (session_end x)
           = (if time_remaining x = 0
              then [PanelSessionComplete, ShowNotification, PromptDismiss]
              else [PanelSessionEndedEarly])"
    by (simp add: session_end_def Let_def)
  moreover have "audio_player (snd (session_end x))
           = (if time_remaining x = 0
              then play (get_asset_path ''notification.wav'') True (stop (audio_player x))
              else stop (audio_player x))"
    by (simp add: session_end_def Let_def)
  ultimately show ?thesis using pos by simp
qed

theorem C7_quit_witness:
  "(0::int) < 11
   \<and> (case focus_phase 11 (AudioPlayer_init mixer_init) 0
          ([(None, 1), (Some ''m'', 2), (None, 3)] @ (Some ''q'', 3) # [(None, 4)]) of
        Exited (ui, s) \<Rightarrow>
          ui = [PanelSessionEndedEarly] \<and> time_remaining s = 657 \<and> \<not> session_active s
      | Running r \<Rightarrow> False)"
proof -
  let ?ap = "AudioPlayer_init mixer_init"
  let ?start = "FocusSession_init 11 (play (get_asset_path ''rain.mp3'') True ?ap) 0"
  let ?s = "update_timer 3 (update_timer 2
      ((update_timer 1 ?start)\<lparr>audio_player := snd (toggle_mute (audio_player (update_timer 1 ?start)))\<rparr>))"
  have h1: "(0::int) < 11" by simp
  have tr: "time_remaining ?s = 657" "session_active ?s"
    by (simp_all add: update_timer_def FocusSession_init_def Let_def)
  have h2: "focus_phase 11 ?ap 0 [(None, 1), (Some ''m'', 2), (None, 3)] = Running ([], ?s)"
    by (simp add: focus_phase_def focus_tick_def is_complete_def update_timer_def
        FocusSession_init_def toggle_mute_def set_volume_def Let_def)
  from C7_quit_keeps_time_remaining [OF h1 h2, of 3 "[(None, 4)]"] tr h1
  show ?thesis by simp
qed

section \<open>Properties of the meditation loop\<close>

lemma med_loop_skipped: "skip_requested (player st) \<Longrightarrow> med_loop d ps st = Returned st"
  by (cases ps) simp_all

lemma pause_loop_reading:
  "med_is_paused (player st) \<Longrightarrow> \<not> skip_requested (player st)
   \<Longrightarrow> pause_loop d ps a t st = pause_loop d ps a t' st"
  by (cases ps) simp_all

lemma pause_loop_left:
  "\<not> (med_is_paused (player st) \<and> \<not> skip_requested (player st))
   \<Longrightarrow> pause_loop d ps a t st = med_loop d ps (after_pause a t st)"
  by (cases ps) (auto simp del: med_loop.simps)

lemma resume_more:
  "(med_loop d pre st = Waiting w \<longrightarrow> med_loop d (pre @ rest) st = resume d rest w)"
  "(pause_loop d pre a t st = Waiting w \<longrightarrow> pause_loop d (pre @ rest) a t st = resume d rest w)"
proof (induction d pre st and d pre a t st arbitrary: w and w rule: med_loop_pause_loop.induct)
  case (1 duration_ms st)
  show ?case
    by (auto simp add: resume_def med_loop_skipped)
next
  case (2 duration_ms p ps st)
  show ?case
  proof (cases "(poll_busy p \<or> med_is_paused (player st)) \<and> \<not> skip_requested (player st)")
    case False
    then show ?thesis by simp
  next
    case c: True
    show ?thesis
    proof (cases "med_key (poll_key p) (player st)")
      case (Break m1)
      with c show ?thesis by simp
    next
      case (Continue m1)
      show ?thesis
      proof (cases "med_is_paused m1")
        case True
        have "pause_loop duration_ms ps (poll_now p) (poll_now p) (st\<lparr>player := m1\<rparr>) = Waiting w
          \<longrightarrow> pause_loop duration_ms (ps @ rest) (poll_now p) (poll_now p) (st\<lparr>player := m1\<rparr>)
              = resume duration_ms rest w"
          using c Continue True by (intro "2.IH"(2)) simp_all
        then show ?thesis using c Continue True by simp
      next
        case False
        let ?e = "(poll_now p - start_time st) * 1000"
        let ?st = "st\<lparr>player := m1, elapsed_time := ?e,
                        completed := min (?e / duration_ms * 100) 100\<rparr>"
        show ?thesis
        proof (cases "duration_ms = 0 \<or> duration_ms \<le> ?e")
          case True
          then show ?thesis using c Continue False by (auto simp add: Let_def)
        next
          case n: False
          have "med_loop duration_ms ps ?st = Waiting w
            \<longrightarrow> med_loop duration_ms (ps @ rest) ?st = resume duration_ms rest w"
            using c Continue False n by (intro "2.IH"(1) [of m1 ?e ?st]) simp_all
          then show ?thesis using c Continue False n by (simp add: Let_def)
        qed
      qed
    qed
  qed
next
  case (3 duration_ms pause_start t st)
  show ?case
  proof (cases "med_is_paused (player st) \<and> \<not> skip_requested (player st)")
    case True
    then show ?thesis
      using pause_loop_reading [of st duration_ms rest pause_start t pause_start]
      by (auto simp add: resume_def)
  next
    case False
    have "med_loop duration_ms [] (after_pause pause_start t st) = Waiting w
      \<longrightarrow> med_loop duration_ms ([] @ rest) (after_pause pause_start t st)
          = resume duration_ms rest w"
      using False by (intro "3.IH") simp
    then show ?thesis
      unfolding pause_loop_left [OF False] by (simp del: med_loop.simps)
  qed
next
  case (4 duration_ms p ps pause_start t st)
  show ?case
  proof (cases "med_is_paused (player st) \<and> \<not> skip_requested (player st)")
    case False
    have "med_loop duration_ms (p # ps) (after_pause pause_start t st) = Waiting w
      \<longrightarrow> med_loop duration_ms ((p # ps) @ rest) (after_pause pause_start t st)
          = resume duration_ms rest w"
      using False by (intro "4.IH"(4)) simp
    then show ?thesis
      unfolding pause_loop_left [OF False] by (simp del: med_loop.simps)
  next
    case c: True
    show ?thesis
    proof (cases "poll_key p = Some '' ''")
      case True
      then show ?thesis using c "4.IH"(1) [of w] by simp
    next
      case ns: False
      show ?thesis
      proof (cases "poll_key p = Some ''s''")
        case True
        then show ?thesis using c ns "4.IH"(2) [of w] by simp
      next
        case False
        then show ?thesis using c ns "4.IH"(3) [of w] by simp
      qed
    qed
  qed
qed

lemma waiting_state:
  "(med_loop d pre st = Waiting (AtLoopTest st') \<longrightarrow> \<not> skip_requested (player st'))
   \<and> (med_loop d pre st = Waiting (InPauseLoop st' a')
        \<longrightarrow> med_is_paused (player st') \<and> \<not> skip_requested (player st'))"
  "(pause_loop d pre a t st = Waiting (AtLoopTest st') \<longrightarrow> \<not> skip_requested (player st'))
   \<and> (pause_loop d pre a t st = Waiting (InPauseLoop st' a')
        \<longrightarrow> med_is_paused (player st') \<and> \<not> skip_requested (player st'))"
proof (induction d pre st and d pre a t st rule: med_loop_pause_loop.induct)
  case (1 duration_ms st)
  show ?case by auto
next
  case (2 duration_ms p ps st)
  show ?case
  proof (cases "(poll_busy p \<or> med_is_paused (player st)) \<and> \<not> skip_requested (player st)")
    case False
    then show ?thesis by simp
  next
    case c: True
    show ?thesis
    proof (cases "med_key (poll_key p) (player st)")
      case (Break m1)
      with c show ?thesis by simp
    next
      case (Continue m1)
      show ?thesis
      proof (cases "med_is_paused m1")
        case True
        then show ?thesis using c Continue "2.IH"(2) [of m1] by simp
      next
        case False
        let ?e = "(poll_now p - start_time st) * 1000"
        let ?st = "st\<lparr>player := m1, elapsed_time := ?e,
                        completed := min (?e / duration_ms * 100) 100\<rparr>"
        show ?thesis
        proof (cases "duration_ms = 0 \<or> duration_ms \<le> ?e")
          case True
          then show ?thesis using c Continue False by (auto simp add: Let_def)
        next
          case n: False
          then show ?thesis using c Continue False "2.IH"(1) [of m1 ?e ?st]
            by (simp add: Let_def)
        qed
      qed
    qed
  qed
next
  case (3 duration_ms pause_start t st)
  show ?case
  proof (cases "med_is_paused (player st) \<and> \<not> skip_requested (player st)")
    case True
    then show ?thesis by auto
  next
    case False
    then show ?thesis
      using "3.IH" unfolding pause_loop_left [OF False] by (simp del: med_loop.simps)
  qed
next
  case (4 duration_ms p ps pause_start t st)
  show ?case
  proof (cases "med_is_paused (player st) \<and> \<not> skip_requested (player st)")
    case False
    then show ?thesis
      using "4.IH"(4) unfolding pause_loop_left [OF False] by (simp del: med_loop.simps)
  next
    case c: True
    then show ?thesis using "4.IH"(1,2,3) by simp
  qed
qed


lemma med_loop_skip_key:
  "\<not> skip_requested (player st) \<Longrightarrow> poll_busy p \<or> med_is_paused (player st)
   \<Longrightarrow> poll_key p = Some ''s''
   \<Longrightarrow> med_loop d (p # ps) st = Returned (st\<lparr>player := (player st)\<lparr>skip_requested := True\<rparr>\<rparr>)"
  by (simp add: med_key_def)

lemma pause_loop_skip_key:
  "med_is_paused (player st) \<Longrightarrow> \<not> skip_requested (player st) \<Longrightarrow> poll_key p = Some ''s''
   \<Longrightarrow> pause_loop d (p # ps) a t st
       = Returned (st\<lparr>player := (player st)\<lparr>skip_requested := True\<rparr>\<rparr>)"
  by (simp add: med_loop_skipped after_pause_def)

lemma med_loop_skip_after:
  assumes "med_loop d pre st0 = Waiting w" and "poll_key p = Some ''s''"
    and "w = AtLoopTest st \<and> (poll_busy p \<or> med_is_paused (player st)) \<or> w = InPauseLoop st a"
  shows "med_loop d (pre @ p # ps) st0
         = Returned (st\<lparr>player := (player st)\<lparr>skip_requested := True\<rparr>\<rparr>)"
proof -
  have more: "med_loop d (pre @ p # ps) st0 = resume d (p # ps) w"
    using resume_more(1) [of d pre st0 w "p # ps"] assms(1) by simp
  from assms(3) show ?thesis
  proof
    assume o: "w = AtLoopTest st \<and> (poll_busy p \<or> med_is_paused (player st))"
    then have "\<not> skip_requested (player st)"
      using waiting_state(1) [of d pre st0 st] assms(1) by simp
    then show ?thesis
      using more o assms(2) med_loop_skip_key [of st p d ps]
      by (simp add: resume_def del: med_loop.simps)
  next
    assume i: "w = InPauseLoop st a"
    then have "med_is_paused (player st) \<and> \<not> skip_requested (player st)"
      using waiting_state(1) [of d pre st0 st a] assms(1) by simp
    then show ?thesis
      using more i assms(2) pause_loop_skip_key [of st p d ps a a]
      by (simp add: resume_def del: pause_loop.simps)
  qed
qed

lemma play_with_progress_waiting:
  "play_with_progress d t0 pre m = Waiting w
   \<Longrightarrow> med_loop d pre \<lparr>player = m\<lparr>med_audio_player := play (file_path m) False (med_audio_player m)\<rparr>,
                        start_time = t0, elapsed_time = 0, completed = 0\<rparr> = Waiting w"
  by (simp add: play_with_progress_def Let_def split: run_result.splits)

lemma play_with_progress_returned:
  "med_loop d polls \<lparr>player = m\<lparr>med_audio_player := play (file_path m) False (med_audio_player m)\<rparr>,
                      start_time = t0, elapsed_time = 0, completed = 0\<rparr> = Returned st
   \<Longrightarrow> play_with_progress d t0 polls m
       = Returned (if skip_requested (player st) then MeditationSkipped else MeditationComplete,
                   (player st)\<lparr>med_audio_player := stop (med_audio_player (player st))\<rparr>)"
  by (simp add: play_with_progress_def Let_def)

lemma play_with_progress_exit:
  "play_with_progress d t0 polls m = Returned (outcome, m')
   \<Longrightarrow> last (issued (music (med_audio_player m'))) = Stop
       \<and> (outcome = MeditationSkipped) = skip_requested m'
       \<and> (outcome = MeditationComplete) = (\<not> skip_requested m')"
  by (auto simp add: play_with_progress_def Let_def stop_def issue_def
      split: run_result.splits if_splits)

lemma med_loop_track_ended:
  assumes "med_loop d pre st0 = Waiting (AtLoopTest st)"
    and "\<not> poll_busy p" and "\<not> med_is_paused (player st)"
  shows "med_loop d (pre @ p # ps) st0 = Returned st"
  using resume_more(1) [of d pre st0 "AtLoopTest st" "p # ps"] assms
  by (simp add: resume_def)

lemma med_loop_time_up:
  assumes "med_loop d pre st0 = Waiting (AtLoopTest st)"
    and "poll_busy p" and "\<not> med_is_paused (player st)" and "poll_key p = None"
    and "d \<noteq> 0" and "d \<le> (poll_now p - start_time st) * 1000"
  shows "med_loop d (pre @ p # ps) st0
         = Returned (st\<lparr>elapsed_time := (poll_now p - start_time st) * 1000,
                        completed := min ((poll_now p - start_time st) * 1000 / d * 100) 100\<rparr>)"
proof -
  have "\<not> skip_requested (player st)"
    using waiting_state(1) [of d pre st0 st] assms(1) by simp
  then show ?thesis
    using resume_more(1) [of d pre st0 "AtLoopTest st" "p # ps"] assms
    by (simp add: resume_def med_key_def Let_def)
qed

text \<open>
  C8. Whenever the loop is waiting for input and the next key it reads is \<^verbatim>\<open>s\<close>, the run
  returns at once with \<^verbatim>\<open>skip_requested\<close> set and \<^verbatim>\<open>start_time\<close>, \<^verbatim>\<open>elapsed_time\<close> and
  the progress value as they were: at a poll of the outer loop (first part; the poll is
  made when the track is playing or the player paused) and at a poll of the inner pause
  loop (second part). In both cases \<^verbatim>\<open>play_with_progress\<close> returns with "skipped"
  reported and a stop as the last command issued to the mixer (third and fourth part). On
  natural completion, when the track has ended (fifth part) or the elapsed time has
  reached the track length (sixth part), it returns with "complete" reported and the
  audio stopped. Whenever it returns, the last command issued is a stop and "skipped" is
  reported exactly when \<^verbatim>\<open>skip_requested\<close> is set (last part).
\<close>

theorem C8_skip_exits_and_stops_audio:
  "(med_loop d pre ini = Waiting (AtLoopTest st)
      \<and> (poll_busy p \<or> med_is_paused (player st)) \<and> poll_key p = Some ''s''
      \<longrightarrow> med_loop d (pre @ p # ps) ini
          = Returned (st\<lparr>player := (player st)\<lparr>skip_requested := True\<rparr>\<rparr>))
   \<and> (med_loop d pre ini = Waiting (InPauseLoop st a) \<and> poll_key p = Some ''s''
      \<longrightarrow> med_loop d (pre @ p # ps) ini
          = Returned (st\<lparr>player := (player st)\<lparr>skip_requested := True\<rparr>\<rparr>))
   \<and> (play_with_progress d start pre m = Waiting (AtLoopTest st)
      \<and> (poll_busy p \<or> med_is_paused (player st)) \<and> poll_key p = Some ''s''
      \<longrightarrow> play_with_progress d start (pre @ p # ps) m
          = Returned (MeditationSkipped,
              (player st)\<lparr>skip_requested := True,
                           med_audio_player := stop (med_audio_player (player st))\<rparr>))
   \<and> (play_with_progress d start pre m = Waiting (InPauseLoop st a) \<and> poll_key p = Some ''s''
      \<longrightarrow> play_with_progress d start (pre @ p # ps) m
          = Returned (MeditationSkipped,
              (player st)\<lparr>skip_requested := True,
                           med_audio_player := stop (med_audio_player (player st))\<rparr>))
   \<and> (play_with_progress d start pre m = Waiting (AtLoopTest st)
      \<and> \<not> poll_busy p \<and> \<not> med_is_paused (player st)
      \<longrightarrow> play_with_progress d start (pre @ p # ps) m
          = Returned (MeditationComplete,
              (player st)\<lparr>med_audio_player := stop (med_audio_player (player st))\<rparr>))
   \<and> (play_with_progress d start pre m = Waiting (AtLoopTest st)
      \<and> poll_busy p \<and> \<not> med_is_paused (player st) \<and> poll_key p = None
      \<and> d \<noteq> 0 \<and> d \<le> (poll_now p - start_time st) * 1000
      \<longrightarrow> play_with_progress d start (pre @ p # ps) m
          = Returned (MeditationComplete,
              (player st)\<lparr>med_audio_player := stop (med_audio_player (player st))\<rparr>))
   \<and> (play_with_progress d start polls m = Returned (outcome, m')
      \<longrightarrow> last (issued (music (med_audio_player m'))) = Stop
          \<and> (outcome = MeditationSkipped) = skip_requested m'
          \<and> (outcome = MeditationComplete) = (\<not> skip_requested m'))"
proof (intro conjI impI)
  assume h: "med_loop d pre ini = Waiting (AtLoopTest st)
      \<and> (poll_busy p \<or> med_is_paused (player st)) \<and> poll_key p = Some ''s''"
  then show "med_loop d (pre @ p # ps) ini
          = Returned (st\<lparr>player := (player st)\<lparr>skip_requested := True\<rparr>\<rparr>)"
    by (intro med_loop_skip_after [of d pre ini "AtLoopTest st" p st a ps]) simp_all
next
  assume h: "med_loop d pre ini = Waiting (InPauseLoop st a) \<and> poll_key p = Some ''s''"
  then show "med_loop d (pre @ p # ps) ini
          = Returned (st\<lparr>player := (player st)\<lparr>skip_requested := True\<rparr>\<rparr>)"
    by (intro med_loop_skip_after [of d pre ini "InPauseLoop st a" p st a ps]) simp_all
next
  assume h: "play_with_progress d start pre m = Waiting (AtLoopTest st)
      \<and> (poll_busy p \<or> med_is_paused (player st)) \<and> poll_key p = Some ''s''"
  from h play_with_progress_waiting [of d start pre m "AtLoopTest st"]
  have "med_loop d (pre @ p # ps)
          \<lparr>player = m\<lparr>med_audio_player := play (file_path m) False (med_audio_player m)\<rparr>,
             start_time = start, elapsed_time = 0, completed = 0\<rparr>
        = Returned (st\<lparr>player := (player st)\<lparr>skip_requested := True\<rparr>\<rparr>)"
    by (intro med_loop_skip_after [of d pre _ "AtLoopTest st" p st a ps]) simp_all
  from play_with_progress_returned [OF this]
  show "play_with_progress d start (pre @ p # ps) m
          = Returned (MeditationSkipped,
              (player st)\<lparr>skip_requested := True,
                           med_audio_player := stop (med_audio_player (player st))\<rparr>)"
    by simp
next
  assume h: "play_with_progress d start pre m = Waiting (InPauseLoop st a)
      \<and> poll_key p = Some ''s''"
  from h play_with_progress_waiting [of d start pre m "InPauseLoop st a"]
  have "med_loop d (pre @ p # ps)
          \<lparr>player = m\<lparr>med_audio_player := play (file_path m) False (med_audio_player m)\<rparr>,
             start_time = start, elapsed_time = 0, completed = 0\<rparr>
        = Returned (st\<lparr>player := (player st)\<lparr>skip_requested := True\<rparr>\<rparr>)"
    by (intro med_loop_skip_after [of d pre _ "InPauseLoop st a" p st a ps]) simp_all
  from play_with_progress_returned [OF this]
  show "play_with_progress d start (pre @ p # ps) m
          = Returned (MeditationSkipped,
              (player st)\<lparr>skip_requested := True,
                           med_audio_player := stop (med_audio_player (player st))\<rparr>)"
    by simp
next
  assume h: "play_with_progress d start pre m = Waiting (AtLoopTest st)
      \<and> \<not> poll_busy p \<and> \<not> med_is_paused (player st)"
  from h play_with_progress_waiting [of d start pre m "AtLoopTest st"]
  have w: "med_loop d pre
          \<lparr>player = m\<lparr>med_audio_player := play (file_path m) False (med_audio_player m)\<rparr>,
             start_time = start, elapsed_time = 0, completed = 0\<rparr> = Waiting (AtLoopTest st)"
    by simp
  have ns: "\<not> skip_requested (player st)"
    using waiting_state(1) [of d pre _ st] w by simp
  from med_loop_track_ended [OF w, of p ps] h
  have "med_loop d (pre @ p # ps)
          \<lparr>player = m\<lparr>med_audio_player := play (file_path m) False (med_audio_player m)\<rparr>,
             start_time = start, elapsed_time = 0, completed = 0\<rparr> = Returned st"
    by simp
  from play_with_progress_returned [OF this] ns
  show "play_with_progress d start (pre @ p # ps) m
          = Returned (MeditationComplete,
              (player st)\<lparr>med_audio_player := stop (med_audio_player (player st))\<rparr>)"
    by simp
next
  assume h: "play_with_progress d start pre m = Waiting (AtLoopTest st)
      \<and> poll_busy p \<and> \<not> med_is_paused (player st) \<and> poll_key p = None
      \<and> d \<noteq> 0 \<and> d \<le> (poll_now p - start_time st) * 1000"
  from h play_with_progress_waiting [of d start pre m "AtLoopTest st"]
  have w: "med_loop d pre
          \<lparr>player = m\<lparr>med_audio_player := play (file_path m) False (med_audio_player m)\<rparr>,
             start_time = start, elapsed_time = 0, completed = 0\<rparr> = Waiting (AtLoopTest st)"
    by simp
  have ns: "\<not> skip_requested (player st)"
    using waiting_state(1) [of d pre _ st] w by simp
  from med_loop_time_up [OF w, of p ps] h
  have "med_loop d (pre @ p # ps)
          \<lparr>player = m\<lparr>med_audio_player := play (file_path m) False (med_audio_player m)\<rparr>,
             start_time = start, elapsed_time = 0, completed = 0\<rparr>
        = Returned (st\<lparr>elapsed_time := (poll_now p - start_time st) * 1000,
                        completed := min ((poll_now p - start_time st) * 1000 / d * 100) 100\<rparr>)"
    by simp
  from play_with_progress_returned [OF this] ns
  show "play_with_progress d start (pre @ p # ps) m
          = Returned (MeditationComplete,
              (player st)\<lparr>med_audio_player := stop (med_audio_player (player st))\<rparr>)"
    by simp
next
  assume "play_with_progress d start polls m = Returned (outcome, m')"
  from play_with_progress_exit [OF this]
  show "last (issued (music (med_audio_player m'))) = Stop"
    "(outcome = MeditationSkipped) = skip_requested m'"
    "(outcome = MeditationComplete) = (\<not> skip_requested m')"
    by simp_all
qed

theorem C8_skip_witness:
  "med_loop 180000 ([poll True None 1] @ poll True (Some ''s'') 2 # [])
       \<lparr>player = demo_started, start_time = 0, elapsed_time = 0, completed = 0\<rparr>
     = Returned \<lparr>player = demo_started\<lparr>skip_requested := True\<rparr>, start_time = 0,
                 elapsed_time = 1000, completed = 5 / 9\<rparr>
   \<and> med_loop 180000
       ([poll True (Some '' '') 1, poll False None (3 / 2)] @ poll True (Some ''s'') 2 # [])
       \<lparr>player = demo_started, start_time = 0, elapsed_time = 0, completed = 0\<rparr>
     = Returned \<lparr>player = demo_started\<lparr>med_is_paused := True,
                   med_audio_player := pause (med_audio_player demo_started),
                   skip_requested := True\<rparr>,
                 start_time = 0, elapsed_time = 0, completed = 0\<rparr>
   \<and> play_with_progress 180000 0 ([poll True None 1] @ poll True (Some ''s'') 2 # [])
       demo_meditation
     = Returned (MeditationSkipped,
         demo_started\<lparr>skip_requested := True,
                       med_audio_player := stop (med_audio_player demo_started)\<rparr>)
   \<and> play_with_progress 180000 0
       ([poll True (Some '' '') 1, poll False None (3 / 2)] @ poll True (Some ''s'') 2 # [])
       demo_meditation
     = Returned (MeditationSkipped,
         demo_started\<lparr>med_is_paused := True, skip_requested := True,
           med_audio_player := stop (pause (med_audio_player demo_started))\<rparr>)
   \<and> play_with_progress 180000 0 ([poll True None 1] @ poll False None 181 # [])
       demo_meditation
     = Returned (MeditationComplete,
         demo_started\<lparr>med_audio_player := stop (med_audio_player demo_started)\<rparr>)
   \<and> play_with_progress 180000 0 ([poll True None 1] @ poll True None 181 # [])
       demo_meditation
     = Returned (MeditationComplete,
         demo_started\<lparr>med_audio_player := stop (med_audio_player demo_started)\<rparr>)
   \<and> last (issued (music (med_audio_player
         (demo_started\<lparr>skip_requested := True,
                        med_audio_player := stop (med_audio_player demo_started)\<rparr>)))) = Stop"
proof -
  let ?ini = "\<lparr>player = demo_started, start_time = 0, elapsed_time = 0, completed = 0\<rparr>"
  let ?one = "\<lparr>player = demo_started, start_time = 0, elapsed_time = 1000,
                completed = 5 / 9\<rparr>"
  let ?held = "\<lparr>player = demo_started\<lparr>med_is_paused := True,
                   med_audio_player := pause (med_audio_player demo_started)\<rparr>,
                 start_time = 0, elapsed_time = 0, completed = 0\<rparr>"
  let ?s = "poll True (Some ''s'') 2"
  have ds: "\<not> skip_requested demo_started" "\<not> med_is_paused demo_started"
    "demo_started = demo_meditation\<lparr>med_audio_player :=
        play (file_path demo_meditation) False (med_audio_player demo_meditation)\<rparr>"
    by (simp_all add: demo_started_def demo_meditation_def MeditationPlayer_init_def)
  have w1: "med_loop 180000 [poll True None 1] ?ini = Waiting (AtLoopTest ?one)"
    using ds(1,2) by (simp add: poll_def med_key_def Let_def)
  have w2: "med_loop 180000 [poll True (Some '' '') 1, poll False None (3 / 2)] ?ini
            = Waiting (InPauseLoop ?held 1)"
    using ds(1,2) by (simp add: poll_def med_key_def Let_def)
  have p1: "play_with_progress 180000 0 [poll True None 1] demo_meditation
            = Waiting (AtLoopTest ?one)"
    using w1 unfolding ds(3) by (simp add: play_with_progress_def Let_def)
  have p2: "play_with_progress 180000 0 [poll True (Some '' '') 1, poll False None (3 / 2)]
              demo_meditation = Waiting (InPauseLoop ?held 1)"
    using w2 unfolding ds(3) by (simp add: play_with_progress_def Let_def)
  have k: "poll_busy ?s" "poll_key ?s = Some ''s''"
    "\<not> poll_busy (poll False None 181)" "poll_busy (poll True None 181)"
    "poll_key (poll True None 181) = None"
    "(180000::real) \<noteq> 0" "180000 \<le> (poll_now (poll True None 181) - start_time ?one) * 1000"
    "\<not> med_is_paused (player ?one)"
    using ds(2) by (simp_all add: poll_def)
  note a = C8_skip_exits_and_stops_audio
    [where d = 180000 and pre = "[poll True None 1]" and ini = ?ini and st = ?one
       and p = ?s and ps = "[]" and start = 0 and m = demo_meditation]
  note b = C8_skip_exits_and_stops_audio
    [where d = 180000 and pre = "[poll True (Some '' '') 1, poll False None (3 / 2)]"
       and ini = ?ini and st = ?held and a = 1
       and p = ?s and ps = "[]" and start = 0 and m = demo_meditation]
  note c = C8_skip_exits_and_stops_audio
    [where d = 180000 and pre = "[poll True None 1]" and st = ?one
       and p = "poll False None 181" and ps = "[]" and start = 0 and m = demo_meditation]
  note e = C8_skip_exits_and_stops_audio
    [where d = 180000 and pre = "[poll True None 1]" and st = ?one
       and p = "poll True None 181" and ps = "[]" and start = 0 and m = demo_meditation]
  have r1: "med_loop 180000 ([poll True None 1] @ ?s # []) ?ini
            = Returned (?one\<lparr>player := (player ?one)\<lparr>skip_requested := True\<rparr>\<rparr>)"
    using a w1 k(1,2) by blast
  have r2: "med_loop 180000
              ([poll True (Some '' '') 1, poll False None (3 / 2)] @ ?s # []) ?ini
            = Returned (?held\<lparr>player := (player ?held)\<lparr>skip_requested := True\<rparr>\<rparr>)"
    using b w2 k(2) by blast
  have r3: "play_with_progress 180000 0 ([poll True None 1] @ ?s # []) demo_meditation
            = Returned (MeditationSkipped,
                (player ?one)\<lparr>skip_requested := True,
                  med_audio_player := stop (med_audio_player (player ?one))\<rparr>)"
    using a p1 k(1,2) by blast
  have r4: "play_with_progress 180000 0
              ([poll True (Some '' '') 1, poll False None (3 / 2)] @ ?s # []) demo_meditation
            = Returned (MeditationSkipped,
                (player ?held)\<lparr>skip_requested := True,
                  med_audio_player := stop (med_audio_player (player ?held))\<rparr>)"
    using b p2 k(2) by blast
  have r5: "play_with_progress 180000 0 ([poll True None 1] @ poll False None 181 # [])
              demo_meditation
            = Returned (MeditationComplete,
                (player ?one)\<lparr>med_audio_player := stop (med_audio_player (player ?one))\<rparr>)"
    using c p1 k(3,8) by blast
  have r6: "play_with_progress 180000 0 ([poll True None 1] @ poll True None 181 # [])
              demo_meditation
            = Returned (MeditationComplete,
                (player ?one)\<lparr>med_audio_player := stop (med_audio_player (player ?one))\<rparr>)"
    using e p1 k(4,5,6,7,8) by blast
  have r7: "last (issued (music (med_audio_player
              ((player ?one)\<lparr>skip_requested := True,
                  med_audio_player := stop (med_audio_player (player ?one))\<rparr>)))) = Stop"
    using C8_skip_exits_and_stops_audio
      [where d = 180000 and start = 0 and m = demo_meditation
         and polls = "[poll True None 1] @ ?s # []" and outcome = MeditationSkipped
         and m' = "(player ?one)\<lparr>skip_requested := True,
                  med_audio_player := stop (med_audio_player (player ?one))\<rparr>"] r3
    by blast
  show ?thesis
    using r1 r2 r3 r4 r5 r6 r7 by (simp del: med_loop.simps pause_loop.simps)
qed

section \<open>Properties of the raw input reader\<close>

text \<open>
  C9. \<^verbatim>\<open>__exit__\<close> restores nothing when \<^verbatim>\<open>old_settings\<close> is unset; whenever it changes
  the terminal, the platform is not \<^verbatim>\<open>win32\<close> and the attributes it installs are the
  ones held in \<^verbatim>\<open>old_settings\<close>; what \<^verbatim>\<open>__enter__\<close> stores there is what the terminal had
  when it was entered. A scope whose acquisition fails runs no body and restores nothing;
  a scope whose acquisition succeeds leaves the terminal with exactly the attributes
  captured, whether the body returns or raises.
\<close>

theorem C9_restore_only_what_was_acquired:
  "(old_settings kb = None \<longrightarrow> kb_exit win kb tty = Inr tty)
   \<and> (kb_exit win kb tty = Inr tty' \<and> tty' \<noteq> tty
      \<longrightarrow> \<not> win \<and> old_settings kb = tty')
   \<and> (kb_enter win setraw KeyboardInput_init tty = (r, kb', tty_raw)
        \<and> old_settings kb' = Some attrs
      \<longrightarrow> \<not> win \<and> tty = Some attrs)
   \<and> (tcgetattr tty = Inl e
      \<longrightarrow> with_KeyboardInput False setraw body tty = (Inl e, tty))
   \<and> (attrs \<noteq> [] \<and> setraw attrs = Inr raw
        \<and> body \<lparr>old_settings = Some attrs\<rparr> (Some raw) = (res, Some left)
      \<longrightarrow> with_KeyboardInput False setraw body (Some attrs) = (res, Some attrs))"
proof (intro conjI impI)
  assume "old_settings kb = None"
  then show "kb_exit win kb tty = Inr tty"
    by (simp add: kb_exit_def truthy_def)
next
  assume a: "kb_exit win kb tty = Inr tty' \<and> tty' \<noteq> tty"
  then show "\<not> win"
    by (auto simp add: kb_exit_def split: if_splits)
  from a show "old_settings kb = tty'"
    by (auto simp add: kb_exit_def tcsetattr_def truthy_def
        split: if_splits option.splits)
next
  assume a: "kb_enter win setraw KeyboardInput_init tty = (r, kb', tty_raw)
        \<and> old_settings kb' = Some attrs"
  then show "\<not> win"
    by (auto simp add: kb_enter_def KeyboardInput_init_def split: if_splits)
  from a show "tty = Some attrs"
    by (auto simp add: kb_enter_def KeyboardInput_init_def tcgetattr_def Let_def
        split: if_splits option.splits sum.splits)
next
  assume "tcgetattr tty = Inl e"
  then show "with_KeyboardInput False setraw body tty = (Inl e, tty)"
    by (simp add: with_KeyboardInput_def kb_enter_def)
next
  assume a: "attrs \<noteq> [] \<and> setraw attrs = Inr raw
        \<and> body \<lparr>old_settings = Some attrs\<rparr> (Some raw) = (res, Some left)"
  then show "with_KeyboardInput False setraw body (Some attrs) = (res, Some attrs)"
    by (simp add: with_KeyboardInput_def kb_enter_def kb_exit_def tcgetattr_def
        tcsetattr_def truthy_def KeyboardInput_init_def Let_def)
qed


theorem C9_restore_witness:
  "kb_exit False KeyboardInput_init (Some demo_attrs) = Inr (Some demo_attrs)
   \<and> kb_exit False \<lparr>old_settings = Some demo_attrs\<rparr> (Some (demo_attrs[0 := 0, 3 := 0]))
       = Inr (Some demo_attrs)
   \<and> kb_enter False demo_setraw KeyboardInput_init (Some demo_attrs)
       = (None, \<lparr>old_settings = Some demo_attrs\<rparr>, Some (demo_attrs[0 := 0, 3 := 0]))
   \<and> with_KeyboardInput False demo_setraw demo_body None = (Inl TermiosError, None)
   \<and> with_KeyboardInput False demo_setraw demo_body (Some demo_attrs)
       = (Inr True, Some demo_attrs)"
proof -
  let ?raw = "demo_attrs[0 := 0, 3 := 0]"
  let ?kb = "\<lparr>old_settings = Some demo_attrs\<rparr>"
  have h1: "old_settings (KeyboardInput_init :: nat KeyboardInput) = None"
    by (simp add: KeyboardInput_init_def)
  have h2: "kb_exit False ?kb (Some ?raw) = Inr (Some demo_attrs)
            \<and> Some demo_attrs \<noteq> Some ?raw"
    by (simp add: kb_exit_def truthy_def tcsetattr_def demo_attrs_def)
  have h3: "kb_enter False demo_setraw KeyboardInput_init (Some demo_attrs)
            = (None, ?kb, Some ?raw) \<and> old_settings ?kb = Some demo_attrs"
    by (simp add: kb_enter_def tcgetattr_def demo_setraw_def KeyboardInput_init_def Let_def)
  have h4: "tcgetattr (None :: nat list option) = Inl TermiosError"
    by (simp add: tcgetattr_def)
  have h5: "demo_attrs \<noteq> [] \<and> demo_setraw demo_attrs = Inr ?raw
        \<and> demo_body ?kb (Some ?raw) = (Inr True, Some ?raw)"
    by (simp add: demo_attrs_def demo_setraw_def demo_body_def)
  note a = C9_restore_only_what_was_acquired
      [where kb = "KeyboardInput_init :: nat KeyboardInput" and win = False
        and tty = "Some demo_attrs" and tty' = "Some demo_attrs" and setraw = demo_setraw
        and r = None and kb' = ?kb and tty_raw = "Some ?raw"
        and attrs = demo_attrs and e = TermiosError and body = demo_body
        and raw = ?raw and res = "Inr True" and left = ?raw]
  note b = C9_restore_only_what_was_acquired
      [where kb = ?kb and win = False
        and tty = "Some ?raw" and tty' = "Some demo_attrs" and setraw = demo_setraw
        and r = None and kb' = ?kb and tty_raw = "Some ?raw"
        and attrs = demo_attrs and e = TermiosError and body = demo_body
        and raw = ?raw and res = "Inr True" and left = ?raw]
  note c = C9_restore_only_what_was_acquired
      [where kb = "KeyboardInput_init :: nat KeyboardInput" and win = False
        and tty = None and tty' = None and setraw = demo_setraw
        and r = None and kb' = ?kb and tty_raw = "Some ?raw"
        and attrs = demo_attrs and e = TermiosError and body = demo_body
        and raw = ?raw and res = "Inr True" and left = ?raw]
  have "kb_exit False KeyboardInput_init (Some demo_attrs) = Inr (Some demo_attrs)"
    using a h1 by simp
  moreover have "with_KeyboardInput False demo_setraw demo_body (Some demo_attrs)
       = (Inr True, Some demo_attrs)"
    using a h5 by simp
  moreover have "with_KeyboardInput False demo_setraw demo_body None = (Inl TermiosError, None)"
    using c h4 by simp
  moreover have "old_settings ?kb = Some demo_attrs"
    using b h2 by simp
  ultimately show ?thesis using h2 h3 by simp
qed

text \<open>
  C6 (the code at the failing input). On Unix the function key F2 arrives as the three
  characters ESC, O, Q (27, 79, 81). \<^verbatim>\<open>get_key\<close> returns the escape character, not
  \<^verbatim>\<open>None\<close>, and O and Q move into the buffer of \<^verbatim>\<open>sys.stdin\<close>. With nothing new at the
  descriptor the next call returns \<^verbatim>\<open>None\<close>; once another key (here \<^verbatim>\<open>x\<close>, 120) waits
  there, the next two calls return \<^verbatim>\<open>o\<close> and \<^verbatim>\<open>q\<close> (111, 113), the quit key of the focus
  loop, before \<^verbatim>\<open>x\<close> itself is read. A character outside ASCII (233) is returned
  lowercased. The \<^verbatim>\<open>win32\<close> branch folds a special key (prefix byte 224) into \<^verbatim>\<open>None\<close>,
  and returns the empty string for a byte of a multi-byte character.
\<close>

theorem C6_unix_special_key_is_returned:
  "get_key False ul (1 / 10) \<lparr>console = [], at_fd = [27, 79, 81], buffered = []\<rparr>
     = (Some [27], \<lparr>console = [], at_fd = [], buffered = [79, 81]\<rparr>)
   \<and> get_key False ul (1 / 10) \<lparr>console = [], at_fd = [], buffered = [79, 81]\<rparr>
     = (None, \<lparr>console = [], at_fd = [], buffered = [79, 81]\<rparr>)
   \<and> get_key False ul (1 / 10) \<lparr>console = [], at_fd = [120], buffered = [79, 81]\<rparr>
     = (Some [111], \<lparr>console = [], at_fd = [120], buffered = [81]\<rparr>)
   \<and> get_key False ul (1 / 10) \<lparr>console = [], at_fd = [120], buffered = [81]\<rparr>
     = (Some [113], \<lparr>console = [], at_fd = [120], buffered = []\<rparr>)
   \<and> get_key False ul (1 / 10) \<lparr>console = [], at_fd = [120], buffered = []\<rparr>
     = (Some [120], \<lparr>console = [], at_fd = [], buffered = []\<rparr>)
   \<and> get_key False ul (1 / 10) \<lparr>console = [], at_fd = [233], buffered = []\<rparr>
     = (Some (ul 233), \<lparr>console = [], at_fd = [], buffered = []\<rparr>)
   \<and> get_key True ul (1 / 10) \<lparr>console = [224, 72], at_fd = [], buffered = []\<rparr>
     = (None, \<lparr>console = [], at_fd = [], buffered = []\<rparr>)
   \<and> get_key True ul (1 / 10) \<lparr>console = [195, 169], at_fd = [], buffered = []\<rparr>
     = (Some [], \<lparr>console = [169], at_fd = [], buffered = []\<rparr>)"
  by (simp add: get_key_def get_key_unix_def get_key_win32_def lower_def lower_char_def
      decode_ignore_def)

end
